theory Spec2Isabelle
  imports Main
begin

section \<open>JavaScript containers\<close>

text \<open>
  A JavaScript \<open>Map\<close> iterates in insertion order and \<open>set\<close> on a key that is
  already present keeps that key's position; it is modelled as an association list with
  distinct keys. A \<open>Set\<close> is a list without duplicates, in insertion order.
\<close>

type_synonym ('k, 'v) jsmap = "('k \<times> 'v) list"

definition map_has :: "'k \<Rightarrow> ('k, 'v) jsmap \<Rightarrow> bool" where
  "map_has k m = (map_of m k \<noteq> None)"

definition map_get :: "'k \<Rightarrow> ('k, 'v) jsmap \<Rightarrow> 'v option" where
  "map_get k m = map_of m k"

fun map_set :: "'k \<Rightarrow> 'v \<Rightarrow> ('k, 'v) jsmap \<Rightarrow> ('k, 'v) jsmap" where
  "map_set k v [] = [(k, v)]"
| "map_set k v ((k', v') # m) =
     (if k' = k then (k, v) # m else (k', v') # map_set k v m)"

definition map_delete :: "'k \<Rightarrow> ('k, 'v) jsmap \<Rightarrow> ('k, 'v) jsmap" where
  "map_delete k m = filter (\<lambda>p. fst p \<noteq> k) m"

definition set_add :: "'a \<Rightarrow> 'a list \<Rightarrow> 'a list" where
  "set_add x xs = (if x \<in> set xs then xs else xs @ [x])"

definition set_delete :: "'a \<Rightarrow> 'a list \<Rightarrow> 'a list" where
  "set_delete x xs = removeAll x xs"

section \<open>The Local Hub server\<close>

text \<open>A socket is named by a number; \<open>readyState\<close> is the state of the \<open>ws\<close> library.\<close>

type_synonym ws = nat

datatype readyState = CONNECTING | OPEN | CLOSING | CLOSED

record response =
  questionId :: string
  answer :: string
  reason :: string
  userId :: string
  displayName :: "string option"
  timestamp :: int

text \<open>\<open>clientInfo\<close> of the connection handler; \<open>null\<close> is \<open>None\<close>.\<close>

record clientInfo =
  clientId :: string
  connectedAt :: int
  ip :: string
  ci_userId :: "string option"
  ci_displayName :: "string option"
  isAlive :: bool

text \<open>
  The server state: \<open>wss.clients\<close> (every socket the library holds, with its
  \<open>readyState\<close>), \<open>connectedClients\<close> and the fields of \<open>sessionData\<close>.
\<close>

record hub =
  clients :: "(ws, readyState) jsmap"
  connectedClients :: "(ws, clientInfo) jsmap"
  startTime :: int
  totalConnections :: nat
  activeUsers :: "string list"
  responses :: "(string, (string, response) jsmap) jsmap"

text \<open>Messages from a client, after \<open>JSON.parse\<close>; an absent \<open>timestamp\<close> is \<open>None\<close>.\<close>

datatype client_msg =
    Identify string "string option"
  | SubmitResponse string string string string "string option" "int option"
  | RequestSync
  | Ping
  | GetStats
  | Unknown string

text \<open>
  Messages of the server. The elements of a \<open>bulk_update\<close> are the stored responses,
  each spread into an object tagged \<open>peer_response\<close>.
\<close>

datatype server_msg =
    Welcome string int nat
  | BulkUpdate "response list"
  | Identified bool "string list"
  | UserJoined string "string option" nat
  | UserDisconnected string "string option" nat
  | PeerResponse response
  | ResponseConfirmed string bool
  | SyncResponse "response list" "string list" int
  | Pong int
  | Stats nat nat nat int
  | Error string
  | ServerShutdown

type_synonym sends = "(ws \<times> server_msg) list"

definition ws_readyState :: "hub \<Rightarrow> ws \<Rightarrow> readyState" where
  "ws_readyState h w = (case map_of (clients h) w of Some s \<Rightarrow> s | None \<Rightarrow> CLOSED)"

text \<open>\<open>broadcast(message, senderWs = null)\<close>: every open client other than the sender.\<close>

definition broadcast :: "hub \<Rightarrow> server_msg \<Rightarrow> ws option \<Rightarrow> sends" where
  "broadcast h message senderWs =
     map (\<lambda>c. (fst c, message))
       (filter (\<lambda>c. Some (fst c) \<noteq> senderWs \<and> snd c = OPEN) (clients h))"

definition sendToClient :: "hub \<Rightarrow> ws \<Rightarrow> server_msg \<Rightarrow> sends" where
  "sendToClient h clientWs message =
     (if ws_readyState h clientWs = OPEN then [(clientWs, message)] else [])"

text \<open>The nested \<open>forEach\<close> over \<open>sessionData.responses\<close>.\<close>

definition allResponses :: "hub \<Rightarrow> response list" where
  "allResponses h = concat (map (\<lambda>q. map snd (snd q)) (responses h))"

text \<open>\<open>timestamp || Date.now()\<close>: an absent or zero timestamp is falsy.\<close>

definition timestamp_or :: "int option \<Rightarrow> int \<Rightarrow> int" where
  "timestamp_or t now = (case t of None \<Rightarrow> now | Some v \<Rightarrow> if v = 0 then now else v)"

definition store_response ::
  "response \<Rightarrow> (string, (string, response) jsmap) jsmap
     \<Rightarrow> (string, (string, response) jsmap) jsmap" where
  "store_response r rs =
     (let rs' = (if \<not> map_has (questionId r) rs then map_set (questionId r) [] rs else rs)
      in case map_get (questionId r) rs' of
           Some inner \<Rightarrow> map_set (questionId r) (map_set (userId r) r inner) rs'
         | None \<Rightarrow> rs')"

definition update_info ::
  "ws \<Rightarrow> (clientInfo \<Rightarrow> clientInfo) \<Rightarrow> (ws, clientInfo) jsmap \<Rightarrow> (ws, clientInfo) jsmap" where
  "update_info w f cc = map (\<lambda>p. if fst p = w then (fst p, f (snd p)) else p) cc"

text \<open>
  \<open>handleClientMessage(ws, message, clientInfo)\<close>. \<open>now\<close> and \<open>now2\<close> are the
  readings of \<open>Date.now()\<close>, in the order the handler takes them. The result is the new
  state and the messages sent, in order.
\<close>

fun handleClientMessage :: "int \<Rightarrow> int \<Rightarrow> ws \<Rightarrow> client_msg \<Rightarrow> hub \<Rightarrow> hub \<times> sends" where
  "handleClientMessage now now2 w (Identify uid dn) h =
     (let h' = h\<lparr>connectedClients :=
                   update_info w (\<lambda>i. i\<lparr>ci_userId := Some uid, ci_displayName := dn\<rparr>)
                     (connectedClients h),
                 activeUsers := set_add uid (activeUsers h)\<rparr>
      in (h', broadcast h' (UserJoined uid dn (length (activeUsers h'))) None
              @ sendToClient h' w (Identified True (activeUsers h'))))"
| "handleClientMessage now now2 w (SubmitResponse q a r uid dn t) h =
     (let h' = h\<lparr>responses :=
                   store_response
                     \<lparr>questionId = q, answer = a, reason = r, userId = uid,
                      displayName = dn, timestamp = timestamp_or t now\<rparr>
                     (responses h)\<rparr>
      in (h', broadcast h'
                (PeerResponse \<lparr>questionId = q, answer = a, reason = r, userId = uid,
                               displayName = dn, timestamp = timestamp_or t now2\<rparr>)
                (Some w)
              @ sendToClient h' w (ResponseConfirmed q True)))"
| "handleClientMessage now now2 w RequestSync h =
     (h, sendToClient h w (SyncResponse (allResponses h) (activeUsers h) now))"
| "handleClientMessage now now2 w Ping h = (h, sendToClient h w (Pong now))"
| "handleClientMessage now now2 w GetStats h =
     (h, sendToClient h w
           (Stats (length (connectedClients h)) (length (activeUsers h))
              (foldl (\<lambda>sum m. sum + length (snd m)) 0 (responses h))
              (now - startTime h)))"
| "handleClientMessage now now2 w (Unknown ty) h =
     (h, sendToClient h w (Error (''Unknown message type: '' @ ty)))"

text \<open>
  The \<open>connection\<close> handler. The library has put the socket into \<open>wss.clients\<close>
  before it calls the handler; \<open>cid\<close> is the generated client id.
\<close>

definition on_connection :: "int \<Rightarrow> int \<Rightarrow> string \<Rightarrow> string \<Rightarrow> ws \<Rightarrow> hub \<Rightarrow> hub \<times> sends" where
  "on_connection now now2 cid addr w h =
     (let info = \<lparr>clientId = cid, connectedAt = now, ip = addr, ci_userId = None,
                  ci_displayName = None, isAlive = True\<rparr>;
          h' = h\<lparr>connectedClients := map_set w info (connectedClients h),
                 totalConnections := totalConnections h + 1\<rparr>
      in (h', sendToClient h' w (Welcome cid now2 (length (activeUsers h')))
              @ (if length (responses h') > 0 then
                   (let existingData = allResponses h'
                    in if length existingData > 0
                       then sendToClient h' w (BulkUpdate existingData) else [])
                 else [])))"

text \<open>JavaScript truthiness of \<open>clientInfo.userId\<close>: neither \<open>null\<close> nor the empty string.\<close>

definition truthy :: "string option \<Rightarrow> bool" where
  "truthy s = (case s of None \<Rightarrow> False | Some v \<Rightarrow> v \<noteq> [])"

text \<open>
  The \<open>close\<close> handler of a socket. Its \<open>clientInfo\<close> is the object that the
  connection handler stored in \<open>connectedClients\<close>; a socket without an entry there has no
  handler to run, which is \<open>None\<close>.
\<close>

definition on_close :: "ws \<Rightarrow> hub \<Rightarrow> (hub \<times> sends) option" where
  "on_close w h =
     (case map_get w (connectedClients h) of
        None \<Rightarrow> None
      | Some info \<Rightarrow>
          (case (case ci_userId info of
                   None \<Rightarrow> (h, [])
                 | Some u \<Rightarrow>
                     if truthy (Some u)
                     then (let h1 = h\<lparr>activeUsers := set_delete u (activeUsers h)\<rparr>
                           in (h1, broadcast h1
                                     (UserDisconnected u (ci_displayName info)
                                        (length (activeUsers h1)))
                                     (Some w)))
                     else (h, []))
           of (h2, out) \<Rightarrow>
             Some (h2\<lparr>connectedClients := map_delete w (connectedClients h2)\<rparr>, out)))"

text \<open>The retention sweep, run every \<open>CLEANUP_INTERVAL\<close>.\<close>

definition SESSION_TIMEOUT :: int where
  "SESSION_TIMEOUT = 3600000"

definition cleanup :: "int \<Rightarrow> hub \<Rightarrow> hub" where
  "cleanup now h =
     (let cutoffTime = now - SESSION_TIMEOUT
      in h\<lparr>responses :=
             filter (\<lambda>q. length (snd q) \<noteq> 0)
               (map (\<lambda>q. (fst q, filter (\<lambda>p. \<not> timestamp (snd p) < cutoffTime) (snd q)))
                  (responses h))\<rparr>)"

text \<open>
  The liveness sweep, run every \<open>HEARTBEAT_INTERVAL\<close>, and the \<open>pong\<close> handler of a
  socket. The sweep goes through \<open>wss.clients\<close>: a client whose \<open>isAlive\<close> is still
  \<open>false\<close> is terminated, any other is flagged \<open>false\<close> and pinged.
\<close>

datatype probe = Terminate ws | PingSent ws

definition heartbeat_client :: "ws \<Rightarrow> hub \<times> probe list \<Rightarrow> hub \<times> probe list" where
  "heartbeat_client w acc =
     (case acc of (h, out) \<Rightarrow>
        (case map_get w (connectedClients h) of
           Some info \<Rightarrow>
             if \<not> isAlive info then (h, out @ [Terminate w])
             else (h\<lparr>connectedClients :=
                       update_info w (\<lambda>i. i\<lparr>isAlive := False\<rparr>) (connectedClients h)\<rparr>,
                   out @ [PingSent w])
         | None \<Rightarrow> (h, out @ [PingSent w])))"

definition heartbeat :: "hub \<Rightarrow> hub \<times> probe list" where
  "heartbeat h = foldl (\<lambda>acc c. heartbeat_client (fst c) acc) (h, []) (clients h)"

definition on_pong :: "ws \<Rightarrow> hub \<Rightarrow> hub" where
  "on_pong w h =
     h\<lparr>connectedClients := update_info w (\<lambda>i. i\<lparr>isAlive := True\<rparr>) (connectedClients h)\<rparr>"

text \<open>The state of the server when it starts.\<close>

definition initial_hub :: "int \<Rightarrow> hub" where
  "initial_hub now =
     \<lparr>clients = [], connectedClients = [], startTime = now, totalConnections = 0,
      activeUsers = [], responses = []\<rparr>"

text \<open>
  Every question entry of \<open>responses\<close> holds at least one response: the submit handler
  fills the map it creates, and the sweep deletes a question whose map it has emptied.
\<close>

definition hub_inv :: "hub \<Rightarrow> bool" where
  "hub_inv h = list_all (\<lambda>q. snd q \<noteq> []) (responses h)"

text \<open>A run of messages, each with its clock readings and the socket it arrived on.\<close>

fun handle_all :: "(int \<times> int \<times> ws \<times> client_msg) list \<Rightarrow> hub \<Rightarrow> hub" where
  "handle_all [] h = h"
| "handle_all ((now, now2, w, m) # ms) h =
     handle_all ms (fst (handleClientMessage now now2 w m h))"

section \<open>The hybrid data service of the client\<close>

datatype mode = Cloud | Local | Offline

text \<open>The signed-in user of \<open>FirebaseConfig.auth.currentUser\<close>.\<close>

record fb_user =
  uid :: string
  user_displayName :: "string option"
  email :: "string option"

record peer_entry =
  pe_answer :: string
  pe_reason :: string
  pe_displayName :: "string option"
  pe_timestamp :: int

text \<open>
  \<open>HybridDataService\<close>: \<open>wsConnection\<close> is \<open>null\<close> or a socket, of which the service
  reads the \<open>readyState\<close>.
\<close>

record service =
  connectionMode :: mode
  wsConnection :: "readyState option"
  wsReconnectAttempts :: nat
  cache_responses :: "(string, (string, response) jsmap) jsmap"
  cache_peerData :: "(string, (string, peer_entry) jsmap) jsmap"

definition maxReconnectAttempts :: nat where
  "maxReconnectAttempts = 5"

definition reconnectDelay :: nat where
  "reconnectDelay = 2000"

text \<open>
  The documents \<open>saveQuizResponse\<close> writes: the user's own response and the class-wide
  one, whose id is \<open>questionId_userId\<close>.
\<close>

datatype doc_ref = UserResponseRef string string | ClassResponseRef string

text \<open>
  The notifications the service shows: \<open>count response(s) synced to cloud\<close> and
  \<open>Failed to reconnect to Local Hub. Working offline.\<close>
\<close>

datatype notice = SyncSuccess nat | ReconnectFailed

text \<open>What the service does to the world outside its own fields, in order.\<close>

datatype effect =
    CacheSet string string
  | FirestoreSet doc_ref string string
  | WsSend client_msg
  | OpenSocket string
  | ConnectionModeChanged mode
  | ResponseSaved string bool mode
  | SetTimeout nat
  | ShowNotification notice nat
  | SyncComplete nat nat

text \<open>The state of a settled promise, as \<open>Promise.allSettled\<close> reports it.\<close>

datatype 'a settled = Fulfilled 'a | Rejected

text \<open>
  \<open>FirebaseConfig.saveQuizResponse\<close>. \<open>fs\<close> tells for each document whether
  \<open>set\<close> on it resolves; when it throws, the \<open>catch\<close> returns \<open>false\<close>.
\<close>

definition saveQuizResponse ::
  "fb_user option \<Rightarrow> (doc_ref \<Rightarrow> bool) \<Rightarrow> string \<Rightarrow> string \<Rightarrow> string
     \<Rightarrow> bool settled \<times> effect list" where
  "saveQuizResponse currentUser fs q a r =
     (case currentUser of
        None \<Rightarrow> (Fulfilled False, [])
      | Some u \<Rightarrow>
          (let userResponseRef = UserResponseRef (uid u) q;
               classResponseRef = ClassResponseRef (q @ ''_'' @ uid u)
           in if fs userResponseRef
              then (if fs classResponseRef
                    then (Fulfilled True,
                          [FirestoreSet userResponseRef a r, FirestoreSet classResponseRef a r])
                    else (Fulfilled False,
                          [FirestoreSet userResponseRef a r, FirestoreSet classResponseRef a r]))
              else (Fulfilled False, [FirestoreSet userResponseRef a r])))"

definition setConnectionMode :: "mode \<Rightarrow> service \<Rightarrow> service \<times> effect list" where
  "setConnectionMode m s = (s\<lparr>connectionMode := m\<rparr>, [ConnectionModeChanged m])"

text \<open>\<open>await\<close> of a promise: the value it fulfils with; a rejection would throw.\<close>

definition await :: "'a settled \<Rightarrow> 'a option" where
  "await p = (case p of Fulfilled v \<Rightarrow> Some v | Rejected \<Rightarrow> None)"

text \<open>
  \<open>saveResponse(questionId, answer, reason)\<close>; \<open>now\<close> is \<open>Date.now()\<close>. The result is
  the returned value (\<open>None\<close> when the function throws), the new state and the effects.
\<close>

definition saveResponse ::
  "fb_user option \<Rightarrow> (doc_ref \<Rightarrow> bool) \<Rightarrow> int \<Rightarrow> string \<Rightarrow> string \<Rightarrow> string \<Rightarrow> service
     \<Rightarrow> bool option \<times> service \<times> effect list" where
  "saveResponse currentUser fs now q a r s =
     (case currentUser of
        None \<Rightarrow> (Some False, s, [])
      | Some user \<Rightarrow>
          (let responseData =
                 \<lparr>questionId = q, answer = a, reason = r, userId = uid user,
                  displayName = user_displayName user, timestamp = now\<rparr>;
               s1 = s\<lparr>cache_responses := store_response responseData (cache_responses s)\<rparr>;
               cached = [CacheSet q (uid user)]
           in case connectionMode s1 of
                Cloud \<Rightarrow>
                  (case saveQuizResponse currentUser fs q a r of (p, writes) \<Rightarrow>
                     (case await p of
                        None \<Rightarrow> (None, s1, cached @ writes)
                      | Some saved \<Rightarrow>
                          (Some saved, s1, cached @ writes @ [ResponseSaved q saved Cloud])))
              | Local \<Rightarrow>
                  (if wsConnection s1 = Some OPEN
                   then (Some True, s1,
                         cached
                         @ [WsSend (SubmitResponse q a r (uid user) (user_displayName user)
                                      (Some now)),
                            ResponseSaved q True Local])
                   else (Some False, s1, cached @ [ResponseSaved q False Local]))
              | Offline \<Rightarrow> (Some True, s1, cached @ [ResponseSaved q True Offline])))"

text \<open>
  \<open>syncLocalToCloud\<close>: \<open>None\<close> is the early return. Otherwise the promises collected
  in \<open>operations\<close>, the two counts and the effects; the service itself is not changed.
\<close>

record sync_report =
  operations :: "bool settled list"
  successful :: nat
  failed :: nat
  sync_effects :: "effect list"

definition own_entries ::
  "fb_user option \<Rightarrow> (string, (string, response) jsmap) jsmap \<Rightarrow> response list" where
  "own_entries currentUser rs =
     map snd (filter (\<lambda>p. Some (fst p) = map_option uid currentUser)
                (concat (map snd rs)))"

definition is_fulfilled :: "'a settled \<Rightarrow> bool" where
  "is_fulfilled p = (case p of Fulfilled v \<Rightarrow> True | Rejected \<Rightarrow> False)"

definition is_rejected :: "'a settled \<Rightarrow> bool" where
  "is_rejected p = (case p of Fulfilled v \<Rightarrow> False | Rejected \<Rightarrow> True)"

definition showSyncSuccessNotification :: "nat \<Rightarrow> effect list" where
  "showSyncSuccessNotification count = [ShowNotification (SyncSuccess count) 3000]"

text \<open>
  Every call of \<open>saveQuizResponse\<close> is started inside the \<open>forEach\<close> and runs up to
  its first \<open>await\<close>, so the writes of the users' own documents are all issued before
  the first class-wide write.
\<close>

definition syncLocalToCloud ::
  "fb_user option \<Rightarrow> (doc_ref \<Rightarrow> bool) \<Rightarrow> service \<Rightarrow> sync_report option" where
  "syncLocalToCloud currentUser fs s =
     (if connectionMode s \<noteq> Cloud \<or> currentUser = None then None
      else
        (let calls = map (\<lambda>resp. saveQuizResponse currentUser fs
                                   (questionId resp) (answer resp) (reason resp))
                       (own_entries currentUser (cache_responses s));
             results = map fst calls;
             n_ok = length (filter is_fulfilled results);
             n_bad = length (filter is_rejected results)
         in Some \<lparr>operations = results, successful = n_ok, failed = n_bad,
                  sync_effects = concat (map (\<lambda>c. take 1 (snd c)) calls)
                    @ concat (map (\<lambda>c. drop 1 (snd c)) calls)
                    @ [SyncComplete n_ok n_bad]
                    @ (if n_ok > 0 then showSyncSuccessNotification n_ok else [])\<rparr>))"

text \<open>
  The rest of the link to the hub. What becomes of a socket the service opens is decided
  outside it: the handshake succeeds, fails (the browser then fires \<open>error\<close> and
  \<open>close\<close>), does not finish within the five seconds of the timer, or the constructor
  throws on the address.
\<close>

datatype connect_outcome = Opens | Fails | TimesOut | Throws

text \<open>\<open>user.displayName || 'Anonymous'\<close>\<close>

definition displayName_or_Anonymous :: "string option \<Rightarrow> string" where
  "displayName_or_Anonymous d =
     (case d of None \<Rightarrow> ''Anonymous'' | Some v \<Rightarrow> if truthy (Some v) then v else ''Anonymous'')"

text \<open>The \<open>onopen\<close> handler; the socket is \<open>OPEN\<close> when it runs.\<close>

definition ws_onopen :: "fb_user option \<Rightarrow> service \<Rightarrow> service \<times> effect list" where
  "ws_onopen user s =
     (case setConnectionMode Local (s\<lparr>wsConnection := Some OPEN\<rparr>) of (s1, e1) \<Rightarrow>
        (s1\<lparr>wsReconnectAttempts := 0\<rparr>,
         e1 @ (case user of
                 Some u \<Rightarrow> [WsSend (Identify (uid u)
                                      (Some (displayName_or_Anonymous (user_displayName u))))]
               | None \<Rightarrow> [])
            @ [WsSend RequestSync]))"

text \<open>
  \<open>connectToLocalHub(serverIP)\<close> up to the moment its promise settles: \<open>Fulfilled True\<close>
  is \<open>resolve(true)\<close> or the early \<open>return true\<close>, \<open>Fulfilled False\<close> the
  \<open>return false\<close> of the \<open>catch\<close>, \<open>Rejected\<close> the \<open>reject\<close> of \<open>onerror\<close> or
  of the timer.
\<close>

definition connectToLocalHub ::
  "fb_user option \<Rightarrow> string \<Rightarrow> connect_outcome \<Rightarrow> service
     \<Rightarrow> bool settled \<times> service \<times> effect list" where
  "connectToLocalHub user serverIP outcome s =
     (if wsConnection s = Some OPEN then (Fulfilled True, s, [])
      else
        (let wsUrl = ''ws://'' @ serverIP
         in case outcome of
              Throws \<Rightarrow> (Fulfilled False, s, [])
            | Opens \<Rightarrow>
                (case ws_onopen user (s\<lparr>wsConnection := Some CONNECTING\<rparr>) of (s1, e) \<Rightarrow>
                   (Fulfilled True, s1, OpenSocket wsUrl # e))
            | Fails \<Rightarrow> (Rejected, s\<lparr>wsConnection := Some CLOSED\<rparr>, [OpenSocket wsUrl])
            | TimesOut \<Rightarrow> (Rejected, s\<lparr>wsConnection := Some CONNECTING\<rparr>, [OpenSocket wsUrl])))"

definition showReconnectFailedNotification :: "effect list" where
  "showReconnectFailedNotification = [ShowNotification ReconnectFailed 5000]"

text \<open>
  \<open>handleWebSocketDisconnect\<close>, the \<open>onclose\<close> handler. \<open>SetTimeout d\<close> is the timer
  it sets for the callback below.
\<close>

definition handleWebSocketDisconnect :: "service \<Rightarrow> service \<times> effect list" where
  "handleWebSocketDisconnect s =
     (let s1 = s\<lparr>wsConnection := None\<rparr>
      in if connectionMode s1 = Local then
           (if wsReconnectAttempts s1 < maxReconnectAttempts then
              (let s2 = s1\<lparr>wsReconnectAttempts := wsReconnectAttempts s1 + 1\<rparr>
               in (s2, [SetTimeout (reconnectDelay * wsReconnectAttempts s2)]))
            else
              (case setConnectionMode Offline s1 of (s2, e) \<Rightarrow>
                 (s2, e @ showReconnectFailedNotification)))
         else (s1, []))"


text \<open>
  The service in its browser: the reconnect timers that are set and have not fired, by
  delay; the slot \<open>lastLocalHubIP\<close> of \<open>localStorage\<close>; the signed-in user.
\<close>

record browser =
  svc :: service
  timers :: "nat list"
  lastLocalHubIP :: "string option"
  currentUser :: "fb_user option"





section \<open>Notions used in the statements\<close>

text \<open>\<open>responses.get(q)?.get(u)\<close>: the response stored for a question and a user.\<close>

definition stored ::
  "(string, (string, response) jsmap) jsmap \<Rightarrow> string \<Rightarrow> string \<Rightarrow> response option" where
  "stored rs q u = (case map_get q rs of None \<Rightarrow> None | Some inner \<Rightarrow> map_get u inner)"

text \<open>Whether a message is a \<open>submit_response\<close> for the key \<open>(q, u)\<close>.\<close>

fun is_submit_for :: "string \<Rightarrow> string \<Rightarrow> client_msg \<Rightarrow> bool" where
  "is_submit_for q u (SubmitResponse q' a r u' dn t) = (q' = q \<and> u' = u)"
| "is_submit_for q u m = False"

text \<open>A hub with two open sockets and nothing stored.\<close>

definition hubA :: hub where
  "hubA = \<lparr>clients = [(1, OPEN), (2, OPEN)], connectedClients = [], startTime = 0,
     totalConnections = 2, activeUsers = [], responses = []\<rparr>"

text \<open>The open sockets of \<open>wss.clients\<close>, and those among them other than \<open>w\<close>.\<close>

definition open_clients :: "hub \<Rightarrow> ws list" where
  "open_clients h = map fst (filter (\<lambda>c. snd c = OPEN) (clients h))"

definition open_others :: "ws \<Rightarrow> hub \<Rightarrow> ws list" where
  "open_others w h = filter (\<lambda>c. c \<noteq> w) (open_clients h)"

text \<open>The \<open>responses\<close> and \<open>activeUsers\<close> of a \<open>sync_response\<close>.\<close>

fun sync_content :: "server_msg \<Rightarrow> (response list \<times> string list) option" where
  "sync_content (SyncResponse rs us t) = Some (rs, us)"
| "sync_content m = None"

text \<open>
  The library's part in the life of a socket: it enters \<open>wss.clients\<close> open when the
  handshake is done, its \<open>readyState\<close> changes, and it leaves \<open>wss.clients\<close> when it
  has closed.
\<close>

definition ws_accept :: "ws \<Rightarrow> hub \<Rightarrow> hub" where
  "ws_accept w h = h\<lparr>clients := map_set w OPEN (clients h)\<rparr>"

definition ws_state :: "ws \<Rightarrow> readyState \<Rightarrow> hub \<Rightarrow> hub" where
  "ws_state w st h = h\<lparr>clients := map (\<lambda>c. if fst c = w then (w, st) else c) (clients h)\<rparr>"

definition ws_remove :: "ws \<Rightarrow> hub \<Rightarrow> hub" where
  "ws_remove w h = h\<lparr>clients := map_delete w (clients h)\<rparr>"

text \<open>The states the server can be in.\<close>

inductive hub_reachable :: "hub \<Rightarrow> bool" where
  start: "hub_reachable (initial_hub now)"
| accept: "hub_reachable h \<Longrightarrow> hub_reachable (ws_accept w h)"
| connection: "hub_reachable h \<Longrightarrow> hub_reachable (fst (on_connection now now2 cid addr w h))"
| message: "hub_reachable h \<Longrightarrow> hub_reachable (fst (handleClientMessage now now2 w m h))"
| pong: "hub_reachable h \<Longrightarrow> hub_reachable (on_pong w h)"
| socket: "hub_reachable h \<Longrightarrow> hub_reachable (ws_state w st h)"
| removed: "hub_reachable h \<Longrightarrow> hub_reachable (ws_remove w h)"
| close: "hub_reachable h \<Longrightarrow> on_close w h = Some (h', out) \<Longrightarrow> hub_reachable h'"
| liveness: "hub_reachable h \<Longrightarrow> hub_reachable (fst (heartbeat h))"
| sweep: "hub_reachable h \<Longrightarrow> hub_reachable (cleanup now h)"

text \<open>
  A hub in the middle of a session: sockets 1 and 2 are open and identified as \<open>u1\<close> and
  \<open>u2\<close>, socket 3 is closing and was never identified; three responses are stored.
\<close>

definition info1 :: clientInfo where
  "info1 = \<lparr>clientId = ''client_1'', connectedAt = 1, ip = ''10.0.0.1'',
     ci_userId = Some ''u1'', ci_displayName = Some ''Ann'', isAlive = True\<rparr>"

definition info2 :: clientInfo where
  "info2 = \<lparr>clientId = ''client_2'', connectedAt = 2, ip = ''10.0.0.2'',
     ci_userId = Some ''u2'', ci_displayName = Some ''Bob'', isAlive = True\<rparr>"

definition info3 :: clientInfo where
  "info3 = \<lparr>clientId = ''client_3'', connectedAt = 3, ip = ''10.0.0.3'',
     ci_userId = None, ci_displayName = None, isAlive = True\<rparr>"

definition resp :: "string \<Rightarrow> string \<Rightarrow> string \<Rightarrow> int \<Rightarrow> response" where
  "resp q u a t = \<lparr>questionId = q, answer = a, reason = '''', userId = u,
     displayName = None, timestamp = t\<rparr>"

definition hubB :: hub where
  "hubB = \<lparr>clients = [(1, OPEN), (2, OPEN), (3, CLOSING)],
     connectedClients = [(1, info1), (2, info2), (3, info3)], startTime = 0,
     totalConnections = 3, activeUsers = [''u1'', ''u2''],
     responses = [(''Q1'', [(''u1'', resp ''Q1'' ''u1'' ''B'' 100),
                            (''u2'', resp ''Q1'' ''u2'' ''A'' 110)]),
                  (''Q2'', [(''u1'', resp ''Q2'' ''u1'' ''D'' 120)])]\<rparr>"

text \<open>
  A run from the start of the server: socket 1 connects and submits an answer, a liveness
  sweep flags it, then the library accepts socket 2, whose connection handler has yet to
  run.
\<close>

definition hubC :: hub where
  "hubC = ws_accept 2
     (fst (heartbeat
        (fst (handleClientMessage 10 10 1
                (SubmitResponse ''Q1'' ''B'' '''' ''u1'' (Some ''Ann'') (Some 100))
                (fst (on_connection 1 1 ''client_1'' ''10.0.0.1'' 1
                        (ws_accept 1 (initial_hub 0))))))))"

text \<open>A hub whose only socket is open and not yet identified.\<close>

definition hubD :: hub where
  "hubD = \<lparr>clients = [(1, OPEN)], connectedClients = [(1, info3)], startTime = 0,
     totalConnections = 1, activeUsers = [], responses = []\<rparr>"

text \<open>A signed-in user, and four answers of hers kept in the cache while offline.\<close>

definition ann :: fb_user where
  "ann = \<lparr>uid = ''u1'', user_displayName = Some ''Ann'', email = None\<rparr>"

definition queued4 :: service where
  "queued4 = \<lparr>connectionMode = Cloud, wsConnection = None, wsReconnectAttempts = 0,
     cache_responses =
       [(''Q1'', [(''u1'', resp ''Q1'' ''u1'' ''A'' 100)]),
        (''Q2'', [(''u1'', resp ''Q2'' ''u1'' ''B'' 200)]),
        (''Q3'', [(''u1'', resp ''Q3'' ''u1'' ''C'' 300)]),
        (''Q4'', [(''u1'', resp ''Q4'' ''u1'' ''D'' 400)])],
     cache_peerData = []\<rparr>"

text \<open>A remote store in which exactly the class-wide write for question Q3 fails.\<close>

definition fs_fail_Q3 :: "doc_ref \<Rightarrow> bool" where
  "fs_fail_Q3 d = (d \<noteq> ClassResponseRef ''Q3_u1'')"

text \<open>
  The retries of a reconnect loop as the claim describes them: round \<open>n\<close>, counting from
  1, is a timer of \<open>2000 * n\<close> milliseconds and then a socket opened to the address.
\<close>

fun retry_schedule :: "string \<Rightarrow> nat \<Rightarrow> effect list" where
  "retry_schedule addr 0 = []"
| "retry_schedule addr (Suc n) =
     retry_schedule addr n @ [SetTimeout (2000 * Suc n), OpenSocket (''ws://'' @ addr)]"

fun is_retry :: "effect \<Rightarrow> bool" where
  "is_retry (SetTimeout d) = True"
| "is_retry (OpenSocket url) = True"
| "is_retry e = False"





text \<open>
  A service whose reconnect attempts are used up, one with a link to the hub, one that
  has lost its link twice and waits for its timer; and the second in its browser.
\<close>

definition exhausted :: service where
  "exhausted = \<lparr>connectionMode = Offline, wsConnection = None, wsReconnectAttempts = 5,
     cache_responses = [], cache_peerData = []\<rparr>"


definition waiting :: service where
  "waiting = \<lparr>connectionMode = Local, wsConnection = None, wsReconnectAttempts = 2,
     cache_responses = [], cache_peerData = []\<rparr>"


section \<open>Properties of the hub\<close>

subsection \<open>The containers\<close>

lemma map_of_map_set: "map_of (map_set k v m) = (map_of m)(k \<mapsto> v)"
  by (induction m) (auto simp: fun_eq_iff)

lemma stored_store_response:
  "stored (store_response r rs) q u =
     (if q = questionId r \<and> u = userId r then Some r else stored rs q u)"
  by (auto simp: stored_def store_response_def map_get_def map_has_def map_of_map_set Let_def
      split: option.splits)

subsection \<open>Submissions\<close>

lemma handle_all_append: "handle_all (xs @ ys) h = handle_all ys (handle_all xs h)"
  by (induction xs arbitrary: h) auto

lemma handle_other_stored:
  "\<not> is_submit_for q u m \<Longrightarrow>
   stored (responses (fst (handleClientMessage now now2 w m h))) q u = stored (responses h) q u"
  by (cases m) (auto simp: Let_def stored_store_response)

lemma handle_all_other_stored:
  "\<forall>e \<in> set ms. \<not> is_submit_for q u (snd (snd (snd e))) \<Longrightarrow>
   stored (responses (handle_all ms h)) q u = stored (responses h) q u"
proof (induction ms arbitrary: h)
  case Nil
  then show ?case by simp
next
  case (Cons e ms)
  obtain now now2 w m where e: "e = (now, now2, w, m)" by (cases e) auto
  with Cons.prems have "\<not> is_submit_for q u m" by simp
  then have "stored (responses (fst (handleClientMessage now now2 w m h))) q u
             = stored (responses h) q u"
    by (rule handle_other_stored)
  moreover from Cons.prems have "\<forall>e \<in> set ms. \<not> is_submit_for q u (snd (snd (snd e)))" by simp
  ultimately show ?case using Cons.IH e by simp
qed

text \<open>
  Claim C1. Take any run of messages handled by the hub, and in it a \<open>submit_response\<close>
  for the key \<open>(q, u)\<close> after which no other submission for that key is handled. Whatever
  was handled before it, with whatever timestamps, and whatever other messages follow, the
  hub then stores under \<open>responses[q][u]\<close> the payload of that last submission: its answer,
  reason and display name, and its timestamp (the server's clock when the message carries
  none, or zero). No timestamp is compared.
\<close>

theorem hub_last_submit_wins:
  assumes "\<forall>e \<in> set later. \<not> is_submit_for q u (snd (snd (snd e)))"
  shows "stored (responses (handle_all
            (earlier @ [(now, now2, w, SubmitResponse q a r u dn t)] @ later) h)) q u
         = Some \<lparr>questionId = q, answer = a, reason = r, userId = u, displayName = dn,
                 timestamp = timestamp_or t now\<rparr>"
proof -
  let ?h1 = "handle_all earlier h"
  let ?h2 = "fst (handleClientMessage now now2 w (SubmitResponse q a r u dn t) ?h1)"
  have "stored (responses ?h2) q u
        = Some \<lparr>questionId = q, answer = a, reason = r, userId = u, displayName = dn,
                timestamp = timestamp_or t now\<rparr>"
    by (simp add: Let_def stored_store_response)
  moreover have "handle_all (earlier @ [(now, now2, w, SubmitResponse q a r u dn t)] @ later) h
                 = handle_all later ?h2"
    by (simp add: handle_all_append)
  ultimately show ?thesis using handle_all_other_stored [OF assms] by simp
qed

text \<open>
  The scenario of the specification: answer B with timestamp 100, then answer C with the
  older timestamp 50 for the same key, then traffic of another user. The hub stores C.
\<close>

theorem hub_last_submit_wins_witness:
  "stored (responses (handle_all
      ([(10, 10, 1, SubmitResponse ''Q1'' ''B'' '''' ''u1'' (Some ''Ann'') (Some 100))]
       @ [(20, 20, 1, SubmitResponse ''Q1'' ''C'' '''' ''u1'' (Some ''Ann'') (Some 50))]
       @ [(30, 30, 2, SubmitResponse ''Q1'' ''A'' '''' ''u2'' (Some ''Bob'') (Some 70)),
          (40, 40, 2, RequestSync)]) hubA)) ''Q1'' ''u1''
   = Some \<lparr>questionId = ''Q1'', answer = ''C'', reason = '''', userId = ''u1'',
           displayName = Some ''Ann'', timestamp = 50\<rparr>"
  using hub_last_submit_wins [of "[(30, 30, 2, SubmitResponse ''Q1'' ''A'' '''' ''u2'' (Some ''Bob'') (Some 70)),
          (40, 40, 2, RequestSync)]" "''Q1''" "''u1''"
      "[(10, 10, 1, SubmitResponse ''Q1'' ''B'' '''' ''u1'' (Some ''Ann'') (Some 100))]"
      20 20 1 "''C''" "''''" "Some ''Ann''" "Some 50" hubA]
  by (simp add: timestamp_or_def)

subsection \<open>Synchronisation requests\<close>

text \<open>
  Claim C9. Handling \<open>request_sync\<close> leaves the whole state of the hub as it was
  (\<open>responses\<close>, \<open>activeUsers\<close>, \<open>connectedClients\<close> and every other field), sends to no
  socket but the sender, whose reply, when its socket is open, is the \<open>sync_response\<close>
  with every stored response and the active users; and a second \<open>request_sync\<close> right
  after the first, at any later clock reading, is answered with the same responses and
  active users.
\<close>

theorem request_sync_read_only:
  "fst (handleClientMessage now now2 w RequestSync h) = h
   \<and> (\<forall>e \<in> set (snd (handleClientMessage now now2 w RequestSync h)). fst e = w)
   \<and> (ws_readyState h w = OPEN \<longrightarrow>
        snd (handleClientMessage now now2 w RequestSync h)
        = [(w, SyncResponse (allResponses h) (activeUsers h) now)])
   \<and> map (\<lambda>e. sync_content (snd e))
        (snd (handleClientMessage later later2 w RequestSync
                (fst (handleClientMessage now now2 w RequestSync h))))
     = map (\<lambda>e. sync_content (snd e)) (snd (handleClientMessage now now2 w RequestSync h))"
  by (simp add: sendToClient_def)

theorem request_sync_read_only_witness:
  "ws_readyState hubB 1 = OPEN
   \<and> fst (handleClientMessage 500 500 1 RequestSync hubB) = hubB
   \<and> snd (handleClientMessage 500 500 1 RequestSync hubB)
     = [(1, SyncResponse [resp ''Q1'' ''u1'' ''B'' 100, resp ''Q1'' ''u2'' ''A'' 110,
                          resp ''Q2'' ''u1'' ''D'' 120] [''u1'', ''u2''] 500)]
   \<and> map (\<lambda>e. sync_content (snd e))
        (snd (handleClientMessage 900 900 1 RequestSync
                (fst (handleClientMessage 500 500 1 RequestSync hubB))))
     = [Some ([resp ''Q1'' ''u1'' ''B'' 100, resp ''Q1'' ''u2'' ''A'' 110,
               resp ''Q2'' ''u1'' ''D'' 120], [''u1'', ''u2''])]"
proof -
  have o: "ws_readyState hubB 1 = OPEN"
    by (simp add: ws_readyState_def hubB_def)
  have a: "allResponses hubB = [resp ''Q1'' ''u1'' ''B'' 100, resp ''Q1'' ''u2'' ''A'' 110,
                          resp ''Q2'' ''u1'' ''D'' 120]"
    by (simp add: allResponses_def hubB_def)
  have u: "activeUsers hubB = [''u1'', ''u2'']"
    by (simp add: hubB_def)
  from request_sync_read_only [of 500 500 1 hubB 900 900] o a u show ?thesis
    by simp
qed

subsection \<open>The invariant of the stored responses\<close>

lemma map_set_not_Nil: "map_set k v m \<noteq> []"
  by (cases m) (auto split: if_splits)

lemma set_map_set: "set (map_set k v m) \<subseteq> insert (k, v) (set m)"
  by (induction m) (auto split: if_splits)

lemma hub_inv_store: 
  assumes "list_all (\<lambda>q. snd q \<noteq> []) rs"
  shows "list_all (\<lambda>q. snd q \<noteq> []) (store_response r rs)"
proof (cases "map_of rs (questionId r)")
  case None
  then have "store_response r rs
             = map_set (questionId r) (map_set (userId r) r []) (map_set (questionId r) [] rs)"
    by (simp add: store_response_def map_has_def map_get_def map_of_map_set)
  moreover have "set (map_set (questionId r) [(userId r, r)] (map_set (questionId r) [] rs))
                 \<subseteq> insert (questionId r, [(userId r, r)]) (set (map_set (questionId r) [] rs))"
    by (rule set_map_set)
  moreover have "map_set k v (map_set k v' m) = map_set k v m" for k :: string and v v' :: "(string, response) jsmap" and m
    by (induction m) auto
  moreover have "set (map_set (questionId r) [(userId r, r)] rs)
                 \<subseteq> insert (questionId r, [(userId r, r)]) (set rs)"
    by (rule set_map_set)
  ultimately show ?thesis using assms
    by (auto simp: list_all_iff)
next
  case (Some inner)
  then have "store_response r rs = map_set (questionId r) (map_set (userId r) r inner) rs"
    by (simp add: store_response_def map_has_def map_get_def)
  moreover have "set (map_set (questionId r) (map_set (userId r) r inner) rs)
                 \<subseteq> insert (questionId r, map_set (userId r) r inner) (set rs)"
    by (rule set_map_set)
  ultimately show ?thesis using assms map_set_not_Nil [of "userId r" r inner]
    by (auto simp: list_all_iff)
qed

lemma hub_inv_message: "hub_inv h \<Longrightarrow> hub_inv (fst (handleClientMessage now now2 w m h))"
  by (cases m) (auto simp: hub_inv_def Let_def hub_inv_store)

lemma hub_inv_cleanup: "hub_inv (cleanup now h)"
  by (auto simp: hub_inv_def cleanup_def Let_def list_all_iff)

lemma hub_inv_on_close: "hub_inv h \<Longrightarrow> on_close w h = Some (h', out) \<Longrightarrow> hub_inv h'"
  by (auto simp: hub_inv_def on_close_def Let_def split: option.splits if_splits)

lemma heartbeat_fold_responses:
  "responses (fst (foldl (\<lambda>acc c. heartbeat_client (fst c) acc) acc cs)) = responses (fst acc)"
proof (induction cs arbitrary: acc)
  case Nil
  show ?case by simp
next
  case (Cons c cs)
  have "responses (fst (heartbeat_client (fst c) acc)) = responses (fst acc)"
    by (cases acc) (simp add: heartbeat_client_def split: option.splits)
  with Cons.IH [of "heartbeat_client (fst c) acc"] show ?case by simp
qed

lemma hub_inv_heartbeat: "hub_inv h \<Longrightarrow> hub_inv (fst (heartbeat h))"
  by (simp add: hub_inv_def heartbeat_def heartbeat_fold_responses)

lemma hub_reachable_inv: "hub_reachable h \<Longrightarrow> hub_inv h"
proof (induction rule: hub_reachable.induct)
  case (start now)
  show ?case by (simp add: hub_inv_def initial_hub_def)
next
  case (accept h w)
  then show ?case by (simp add: hub_inv_def ws_accept_def)
next
  case (connection h now now2 cid addr w)
  then show ?case by (simp add: hub_inv_def on_connection_def Let_def)
next
  case (message h now now2 w m)
  from message.IH show ?case by (rule hub_inv_message)
next
  case (pong h w)
  then show ?case by (simp add: hub_inv_def on_pong_def)
next
  case (socket h w st)
  then show ?case by (simp add: hub_inv_def ws_state_def)
next
  case (removed h w)
  then show ?case by (simp add: hub_inv_def ws_remove_def)
next
  case (close h w h' out)
  from close.IH close.hyps(2) show ?case by (rule hub_inv_on_close)
next
  case (liveness h)
  from liveness.IH show ?case by (rule hub_inv_heartbeat)
next
  case (sweep h now)
  show ?case by (rule hub_inv_cleanup)
qed

subsection \<open>New connections\<close>

lemma stored_in_allResponses:
  "stored (responses h) q u = Some r \<Longrightarrow> r \<in> set (allResponses h)"
proof -
  assume s: "stored (responses h) q u = Some r"
  then obtain inner where i: "map_of (responses h) q = Some inner" and r: "map_of inner u = Some r"
    by (auto simp: stored_def map_get_def split: option.splits)
  from i have "(q, inner) \<in> set (responses h)" by (rule map_of_SomeD)
  moreover from r have "(u, r) \<in> set inner" by (rule map_of_SomeD)
  ultimately show ?thesis by (force simp: allResponses_def)
qed

text \<open>
  Claim C7. When the hub accepts a connection while \<open>responses\<close> is not empty, the
  connection handler itself, before any message of the client is read, sends the new
  socket the \<open>welcome\<close> and then a \<open>bulk_update\<close> whose list holds every response the
  hub stores, for every question and user. No \<open>request_sync\<close> is needed. This holds in
  every state in which no question entry is empty, whatever the connections, their
  liveness flags and the active users are; every state the server reaches is such a state
  (\<open>hub_reachable_inv\<close>).
\<close>

theorem connection_gets_bulk_update:
  assumes "hub_inv h" and "responses h \<noteq> []" and "ws_readyState h w = OPEN"
  shows "snd (on_connection now now2 cid addr w h)
         = [(w, Welcome cid now2 (length (activeUsers h))), (w, BulkUpdate (allResponses h))]
         \<and> (\<forall>q u r. stored (responses h) q u = Some r \<longrightarrow> r \<in> set (allResponses h))"
proof -
  from assms(1,2) have "allResponses h \<noteq> []"
    by (cases "responses h") (auto simp: hub_inv_def allResponses_def)
  with assms(2,3) have "snd (on_connection now now2 cid addr w h)
         = [(w, Welcome cid now2 (length (activeUsers h))), (w, BulkUpdate (allResponses h))]"
    by (simp add: on_connection_def sendToClient_def ws_readyState_def allResponses_def Let_def)
  then show ?thesis using stored_in_allResponses by blast
qed

text \<open>
  The run \<open>hubC\<close>: the first client has been flagged by a liveness sweep and has not
  answered yet when the second connection is accepted.
\<close>

theorem connection_gets_bulk_update_witness:
  "hub_reachable hubC \<and> hub_inv hubC \<and> responses hubC \<noteq> [] \<and> ws_readyState hubC 2 = OPEN
   \<and> map (\<lambda>c. isAlive (snd c)) (connectedClients hubC) = [False]
   \<and> snd (on_connection 20 21 ''client_2'' ''10.0.0.2'' 2 hubC)
     = [(2, Welcome ''client_2'' 21 0),
        (2, BulkUpdate [\<lparr>questionId = ''Q1'', answer = ''B'', reason = '''', userId = ''u1'',
                          displayName = Some ''Ann'', timestamp = 100\<rparr>])]"
proof -
  have r: "hub_reachable hubC"
    unfolding hubC_def
    by (intro hub_reachable.accept hub_reachable.liveness hub_reachable.message
        hub_reachable.connection hub_reachable.start)
  then have i: "hub_inv hubC" by (rule hub_reachable_inv)
  have v: "responses hubC = [(''Q1'', [(''u1'', \<lparr>questionId = ''Q1'', answer = ''B'',
             reason = '''', userId = ''u1'', displayName = Some ''Ann'', timestamp = 100\<rparr>)])]"
    by (simp add: hubC_def ws_accept_def heartbeat_def heartbeat_client_def update_info_def
        on_connection_def initial_hub_def Let_def
        store_response_def map_has_def map_get_def timestamp_or_def)
  have f: "map (\<lambda>c. isAlive (snd c)) (connectedClients hubC) = [False]"
    by (simp add: hubC_def ws_accept_def heartbeat_def heartbeat_client_def update_info_def
        on_connection_def initial_hub_def Let_def map_get_def)
  have o: "ws_readyState hubC 2 = OPEN"
    by (simp add: hubC_def ws_accept_def heartbeat_def heartbeat_client_def update_info_def
        on_connection_def initial_hub_def Let_def map_get_def ws_readyState_def)
  have u: "activeUsers hubC = []"
    by (simp add: hubC_def ws_accept_def heartbeat_def heartbeat_client_def update_info_def
        on_connection_def initial_hub_def Let_def map_get_def)
  have n: "responses hubC \<noteq> []" using v by simp
  from connection_gets_bulk_update [OF i n o, of 20 21 "''client_2''" "''10.0.0.2''"] r i n o u v f
  show ?thesis by (simp add: allResponses_def)
qed

subsection \<open>Closing a connection\<close>

lemma map_of_map_delete: "map_of (map_delete k m) k = None"
  by (induction m) (auto simp: map_delete_def)

text \<open>
  Claim C8. The close handler of a connection always removes its entry from
  \<open>connectedClients\<close> and never touches \<open>responses\<close>: every response stored before
  the close is stored after it, those of the closing user too. When the connection was
  identified (its \<open>userId\<close> set and not empty, which is the test the handler makes), the
  user is removed from \<open>activeUsers\<close> and \<open>user_disconnected\<close> goes to every open
  socket other than the closing one; otherwise nothing is sent and \<open>activeUsers\<close>
  stays.
\<close>

theorem close_keeps_responses:
  assumes "map_get w (connectedClients h) = Some info"
  shows "\<exists>h' out. on_close w h = Some (h', out)
           \<and> responses h' = responses h
           \<and> map_get w (connectedClients h') = None
           \<and> (\<forall>u. ci_userId info = Some u \<and> truthy (Some u) \<longrightarrow>
                  u \<notin> set (activeUsers h')
                  \<and> out = map (\<lambda>c. (c, UserDisconnected u (ci_displayName info)
                                           (length (activeUsers h'))))
                            (open_others w h))
           \<and> (\<not> truthy (ci_userId info) \<longrightarrow> out = [] \<and> activeUsers h' = activeUsers h)"
proof (cases "truthy (ci_userId info)")
  case True
  then obtain u where u: "ci_userId info = Some u" "truthy (Some u)"
    by (cases "ci_userId info") (auto simp: truthy_def)
  have b: "broadcast (h\<lparr>activeUsers := us\<rparr>) m (Some w)
           = map (\<lambda>c. (c, m)) (open_others w h)" for us m
    by (simp add: broadcast_def open_others_def open_clients_def filter_map o_def
        conj_commute)
  from assms u show ?thesis
    by (simp add: on_close_def Let_def b set_delete_def map_get_def map_of_map_delete)
next
  case False
  with assms show ?thesis
    by (auto simp: on_close_def Let_def map_get_def map_of_map_delete truthy_def
        split: option.splits)
qed

theorem close_keeps_responses_witness:
  "map_get 1 (connectedClients hubB) = Some info1
   \<and> on_close 1 hubB
     = Some (hubB\<lparr>activeUsers := [''u2''], connectedClients := [(2, info2), (3, info3)]\<rparr>,
             [(2, UserDisconnected ''u1'' (Some ''Ann'') 1)])
   \<and> stored (responses hubB) ''Q1'' ''u1'' = Some (resp ''Q1'' ''u1'' ''B'' 100)"
proof -
  have g: "map_get 1 (connectedClients hubB) = Some info1"
    by (simp add: map_get_def hubB_def)
  have i: "ci_userId info1 = Some ''u1''" "ci_displayName info1 = Some ''Ann''"
    "truthy (Some ''u1'')"
    by (simp_all add: info1_def truthy_def)
  from close_keeps_responses [OF g] obtain h' out where c: "on_close 1 hubB = Some (h', out)"
    "responses h' = responses hubB"
    by blast
  have e: "on_close 1 hubB
     = Some (hubB\<lparr>activeUsers := [''u2''], connectedClients := [(2, info2), (3, info3)]\<rparr>,
             [(2, UserDisconnected ''u1'' (Some ''Ann'') 1)])"
    by (simp add: on_close_def hubB_def map_get_def info1_def truthy_def Let_def
        set_delete_def broadcast_def map_delete_def)
  have s: "stored (responses hubB) ''Q1'' ''u1'' = Some (resp ''Q1'' ''u1'' ''B'' 100)"
    by (simp add: stored_def map_get_def hubB_def)
  from g e s c show ?thesis by simp
qed

subsection \<open>Identification\<close>

lemma map_of_update_info: "map_of (update_info w f cc) w = map_option f (map_of cc w)"
  by (induction cc) (auto simp: update_info_def)

lemma open_in_open_clients: "ws_readyState h w = OPEN \<Longrightarrow> w \<in> set (open_clients h)"
proof -
  assume "ws_readyState h w = OPEN"
  then have "map_of (clients h) w = Some OPEN"
    by (auto simp: ws_readyState_def split: option.splits)
  then have "(w, OPEN) \<in> set (clients h)" by (rule map_of_SomeD)
  then show ?thesis by (force simp: open_clients_def)
qed

text \<open>
  Claim C4, as the code has it. Handling \<open>identify\<close> records \<open>userId\<close> and
  \<open>displayName\<close> on the sender's connection, adds the user to \<open>activeUsers\<close>, sends
  \<open>user_joined\<close> to every open socket, the sender's among them (the handler calls
  \<open>broadcast\<close> without a sender), and then sends \<open>identified\<close> to the sender alone.
\<close>

theorem identify_broadcasts_to_all_open:
  assumes "ws_readyState h w = OPEN"
  shows "\<exists>h' out. handleClientMessage now now2 w (Identify usr dn) h = (h', out)
           \<and> map_get w (connectedClients h')
             = map_option (\<lambda>i. i\<lparr>ci_userId := Some usr, ci_displayName := dn\<rparr>)
                 (map_get w (connectedClients h))
           \<and> usr \<in> set (activeUsers h')
           \<and> out = map (\<lambda>c. (c, UserJoined usr dn (length (activeUsers h')))) (open_clients h)
                   @ [(w, Identified True (activeUsers h'))]
           \<and> (w, UserJoined usr dn (length (activeUsers h'))) \<in> set out"
proof -
  have b: "broadcast (h\<lparr>connectedClients := cc, activeUsers := us\<rparr>) m None
           = map (\<lambda>c. (c, m)) (open_clients h)" for cc us m
    by (simp add: broadcast_def open_clients_def o_def)
  have s: "sendToClient (h\<lparr>connectedClients := cc, activeUsers := us\<rparr>) w m = [(w, m)]" for cc us m
    using assms by (simp add: sendToClient_def ws_readyState_def)
  have a: "usr \<in> set (set_add usr (activeUsers h))"
    by (simp add: set_add_def)
  from open_in_open_clients [OF assms] a show ?thesis
    by (simp add: Let_def b s map_get_def map_of_update_info)
qed

theorem identify_broadcasts_to_all_open_witness:
  "ws_readyState hubD 1 = OPEN
   \<and> handleClientMessage 5 5 1 (Identify ''u1'' (Some ''Ann'')) hubD
     = (hubD\<lparr>connectedClients := [(1, info3\<lparr>ci_userId := Some ''u1'',
                                               ci_displayName := Some ''Ann''\<rparr>)],
              activeUsers := [''u1'']\<rparr>,
        [(1, UserJoined ''u1'' (Some ''Ann'') 1), (1, Identified True [''u1''])])"
proof -
  have o: "ws_readyState hubD 1 = OPEN"
    by (simp add: ws_readyState_def hubD_def)
  from identify_broadcasts_to_all_open [OF o, of 5 5 "''u1''" "Some ''Ann''"]
  obtain h' out where x: "handleClientMessage 5 5 1 (Identify ''u1'' (Some ''Ann'')) hubD = (h', out)"
    by blast
  have e: "handleClientMessage 5 5 1 (Identify ''u1'' (Some ''Ann'')) hubD
     = (hubD\<lparr>connectedClients := [(1, info3\<lparr>ci_userId := Some ''u1'',
                                               ci_displayName := Some ''Ann''\<rparr>)],
              activeUsers := [''u1'']\<rparr>,
        [(1, UserJoined ''u1'' (Some ''Ann'') 1), (1, Identified True [''u1''])])"
    by (simp add: hubD_def Let_def update_info_def set_add_def broadcast_def sendToClient_def
        ws_readyState_def)
  from o e x show ?thesis by simp
qed

text \<open>
  The claim as the specification states it, with the sender excluded from the recipients
  of \<open>user_joined\<close>, fails: the only socket of this hub identifies itself and is sent
  \<open>user_joined\<close>.
\<close>

theorem identify_sender_excluded_counterexample:
  "(1, UserJoined ''u1'' (Some ''Ann'') 1)
     \<in> set (snd (handleClientMessage 5 5 1 (Identify ''u1'' (Some ''Ann'')) hubD))"
  by (simp add: hubD_def Let_def update_info_def set_add_def broadcast_def sendToClient_def
      ws_readyState_def)

section \<open>Properties of the client\<close>

subsection \<open>Saving a response\<close>

text \<open>
  Claim C10. With no user signed in, \<open>saveResponse\<close> returns \<open>false\<close>, the service
  is exactly as before (both maps of the cache and everything else), and there is no
  effect at all: no cache write, no remote write, nothing sent to the hub.
\<close>

theorem saveResponse_signed_out:
  "saveResponse None fs now q a r s = (Some False, s, [])"
  by (simp add: saveResponse_def)

text \<open>
  Claim C5. With a user signed in, in every mode, \<open>saveResponse\<close> first writes the
  response it has built into the cache: the write is the first effect, and the cache of
  the final state is the old one with that response stored under the question and the
  user, whatever the transport does. The returned value is the outcome of the transport
  alone: in Cloud mode whether both remote writes went through, in Local mode whether the
  link was open and the message sent, in Offline mode \<open>true\<close>, where the only further
  effect is the event for the user interface.
\<close>

theorem saveResponse_caches_first:
  "\<exists>saved effs.
     saveResponse (Some user) fs now q a r s
       = (Some saved,
          s\<lparr>cache_responses :=
               store_response
                 \<lparr>questionId = q, answer = a, reason = r, userId = uid user,
                  displayName = user_displayName user, timestamp = now\<rparr>
                 (cache_responses s)\<rparr>,
          CacheSet q (uid user) # effs)
     \<and> stored (cache_responses (fst (snd (saveResponse (Some user) fs now q a r s)))) q (uid user)
       = Some \<lparr>questionId = q, answer = a, reason = r, userId = uid user,
               displayName = user_displayName user, timestamp = now\<rparr>
     \<and> (connectionMode s = Cloud \<longrightarrow>
          saved = (fs (UserResponseRef (uid user) q) \<and> fs (ClassResponseRef (q @ ''_'' @ uid user)))
          \<and> effs = snd (saveQuizResponse (Some user) fs q a r) @ [ResponseSaved q saved Cloud])
     \<and> (connectionMode s = Local \<longrightarrow>
          saved = (wsConnection s = Some OPEN)
          \<and> effs = (if saved
                     then [WsSend (SubmitResponse q a r (uid user) (user_displayName user)
                                     (Some now))]
                     else [])
                    @ [ResponseSaved q saved Local])
     \<and> (connectionMode s = Offline \<longrightarrow> saved = True \<and> effs = [ResponseSaved q True Offline])"
proof (cases "connectionMode s")
  case Cloud
  then show ?thesis
    by (simp add: saveResponse_def saveQuizResponse_def await_def Let_def stored_store_response)
next
  case Local
  then show ?thesis
    by (simp add: saveResponse_def Let_def stored_store_response)
next
  case Offline
  then show ?thesis
    by (auto simp: saveResponse_def Let_def stored_store_response)
qed

text \<open>
  In Cloud mode with a remote store that refuses the class-wide write: \<open>false\<close> is
  returned and the answer is in the cache all the same.
\<close>

theorem saveResponse_caches_first_witness:
  "connectionMode queued4 = Cloud
   \<and> fst (saveResponse (Some ann) fs_fail_Q3 350 ''Q3'' ''E'' ''because'' queued4) = Some False
   \<and> stored (cache_responses
               (fst (snd (saveResponse (Some ann) fs_fail_Q3 350 ''Q3'' ''E'' ''because'' queued4))))
        ''Q3'' ''u1''
     = Some \<lparr>questionId = ''Q3'', answer = ''E'', reason = ''because'', userId = ''u1'',
             displayName = Some ''Ann'', timestamp = 350\<rparr>"
proof -
  have m: "connectionMode queued4 = Cloud" by (simp add: queued4_def)
  have f: "\<not> fs_fail_Q3 (ClassResponseRef (''Q3'' @ ''_'' @ uid ann))"
    by (simp add: fs_fail_Q3_def ann_def)
  from saveResponse_caches_first [of ann fs_fail_Q3 350 "''Q3''" "''E''" "''because''" queued4]
  obtain saved effs where
    x: "saveResponse (Some ann) fs_fail_Q3 350 ''Q3'' ''E'' ''because'' queued4
        = (Some saved, queued4\<lparr>cache_responses :=
               store_response
                 \<lparr>questionId = ''Q3'', answer = ''E'', reason = ''because'', userId = uid ann,
                  displayName = user_displayName ann, timestamp = 350\<rparr>
                 (cache_responses queued4)\<rparr>, CacheSet ''Q3'' (uid ann) # effs)"
    and y: "stored (cache_responses
               (fst (snd (saveResponse (Some ann) fs_fail_Q3 350 ''Q3'' ''E'' ''because'' queued4))))
        ''Q3'' (uid ann)
       = Some \<lparr>questionId = ''Q3'', answer = ''E'', reason = ''because'', userId = uid ann,
               displayName = user_displayName ann, timestamp = 350\<rparr>"
    and z: "connectionMode queued4 = Cloud \<longrightarrow>
          saved = (fs_fail_Q3 (UserResponseRef (uid ann) ''Q3'')
                   \<and> fs_fail_Q3 (ClassResponseRef (''Q3'' @ ''_'' @ uid ann)))"
    by blast
  from z m f have "\<not> saved" by simp
  with x y m show ?thesis by (simp add: ann_def)
qed

subsection \<open>Replaying the cache to the remote store\<close>

lemma saveQuizResponse_never_rejects: "\<not> is_rejected (fst (saveQuizResponse u fs q a r))"
  by (simp add: saveQuizResponse_def is_rejected_def Let_def split: option.splits)

lemma syncLocalToCloud_failed_is_zero:
  "syncLocalToCloud u fs s = Some rep \<Longrightarrow> failed rep = 0"
  by (auto simp: syncLocalToCloud_def Let_def saveQuizResponse_never_rejects
      split: if_splits)

text \<open>
  Claim C2, at the input of its scenario: four answers of the signed-in user are in the
  cache and the remote write of one of them fails. \<open>syncLocalToCloud\<close> calls
  \<open>saveQuizResponse\<close> for each of the four, and the third call yields \<open>false\<close>; but
  that call catches the error of the store and fulfils its promise, so all four promises
  count as fulfilled: the function reports 4 successful and 0 failed, not 3 and 1.
\<close>

theorem syncLocalToCloud_counts_failure_as_success:
  "map_option (\<lambda>rep. (operations rep, successful rep, failed rep))
     (syncLocalToCloud (Some ann) fs_fail_Q3 queued4)
   = Some ([Fulfilled True, Fulfilled True, Fulfilled False, Fulfilled True], 4, 0)"
  by (simp add: syncLocalToCloud_def queued4_def own_entries_def ann_def resp_def
      saveQuizResponse_def fs_fail_Q3_def is_fulfilled_def is_rejected_def Let_def)

text \<open>
  The guard of \<open>syncLocalToCloud\<close> is passed at this input (Cloud mode, a user signed
  in), so a report is made, and it is the one above.
\<close>

theorem syncLocalToCloud_counts_failure_as_success_witness:
  "connectionMode queued4 = Cloud \<and> Some ann \<noteq> None
   \<and> (\<exists>rep. syncLocalToCloud (Some ann) fs_fail_Q3 queued4 = Some rep
          \<and> successful rep = 4 \<and> failed rep = 0)"
  using syncLocalToCloud_counts_failure_as_success
  by (auto simp: queued4_def)

subsection \<open>Connecting to the hub\<close>

text \<open>
  Claim C3, as the code has it. The attempt counter is reset by the \<open>onopen\<close> handler
  and nowhere else. For every prior value of the counter, a \<open>connectToLocalHub\<close> whose
  socket opens resolves to \<open>true\<close> and leaves the service in Local mode with the counter
  at 0; so does a socket that opens after the timer of the call has rejected it.
\<close>

theorem connect_resets_attempts_on_open:
  "(wsConnection s \<noteq> Some OPEN \<longrightarrow>
      fst (connectToLocalHub user addr Opens s) = Fulfilled True
      \<and> fst (snd (connectToLocalHub user addr Opens s))
        = s\<lparr>wsConnection := Some OPEN, connectionMode := Local, wsReconnectAttempts := 0\<rparr>)
   \<and> wsReconnectAttempts (fst (ws_onopen user s)) = 0
   \<and> (wsConnection s \<noteq> Some OPEN \<longrightarrow>
        wsReconnectAttempts
          (fst (ws_onopen user (fst (snd (connectToLocalHub user addr TimesOut s))))) = 0)"
  by (simp add: connectToLocalHub_def ws_onopen_def setConnectionMode_def Let_def)

theorem connect_resets_attempts_on_open_witness:
  "wsConnection exhausted \<noteq> Some OPEN \<and> wsReconnectAttempts exhausted = 5
   \<and> wsReconnectAttempts
       (fst (snd (connectToLocalHub (Some ann) ''192.168.1.100:8080'' Opens exhausted))) = 0
   \<and> wsConnection waiting \<noteq> Some OPEN \<and> wsReconnectAttempts waiting = 2
   \<and> fst (snd (connectToLocalHub (Some ann) ''192.168.1.100:8080'' Opens waiting))
     = waiting\<lparr>wsConnection := Some OPEN, connectionMode := Local, wsReconnectAttempts := 0\<rparr>"
proof -
  have c: "wsConnection exhausted \<noteq> Some OPEN" "wsReconnectAttempts exhausted = 5"
    by (simp_all add: exhausted_def)
  have d: "wsConnection waiting \<noteq> Some OPEN" "wsReconnectAttempts waiting = 2"
    by (simp_all add: waiting_def)
  from connect_resets_attempts_on_open [of exhausted "Some ann" "''192.168.1.100:8080''"]
    connect_resets_attempts_on_open [of waiting "Some ann" "''192.168.1.100:8080''"]
    c d
  show ?thesis by simp
qed

text \<open>
  The claim as the specification states it fails when the socket does not open. With the
  attempts used up and the service offline, the user connects by hand and the socket
  fails: the counter is 5 when the promise is rejected and 5 after the close event of
  the socket. With the service in Local mode waiting for its third retry, the same call
  leaves the counter at 2 when the promise is rejected, and the close event of the socket
  raises it to 3.
\<close>

theorem connect_always_resets_counterexample:
  "wsReconnectAttempts
     (fst (snd (connectToLocalHub (Some ann) ''192.168.1.100:8080'' Fails exhausted))) = 5
   \<and> wsReconnectAttempts
       (fst (handleWebSocketDisconnect
          (fst (snd (connectToLocalHub (Some ann) ''192.168.1.100:8080'' Fails exhausted))))) = 5
   \<and> wsReconnectAttempts
       (fst (snd (connectToLocalHub (Some ann) ''192.168.1.100:8080'' Fails waiting))) = 2
   \<and> wsReconnectAttempts
       (fst (handleWebSocketDisconnect
          (fst (snd (connectToLocalHub (Some ann) ''192.168.1.100:8080'' Fails waiting))))) = 3"
  by (simp add: connectToLocalHub_def exhausted_def waiting_def handleWebSocketDisconnect_def
      maxReconnectAttempts_def Let_def)

subsection \<open>The reconnect loop\<close>




lemma filter_is_retry_schedule: "filter is_retry (retry_schedule addr n) = retry_schedule addr n"
  by (induction n) auto










end
